theory Spec2Isabelle
  imports Main
begin

section \<open>JavaScript values\<close>

text \<open>
  Both screens are React function components written in JavaScript. The values they
  handle are the ones \<^verbatim>\<open>JSON.parse\<close> produces, plus \<^verbatim>\<open>undefined\<close> for a property that
  is not there. Numbers are the integer-valued ones: the screens only count with them.
\<close>

datatype json =
    JNull
  | JBool bool
  | JNum int
  | JStr string
  | JArr "json list"
  | JObj "(string \<times> json) list"

datatype jsval = Undefined | J json

text \<open>What a \<^verbatim>\<open>throw\<close> carries, and how a promise settles.\<close>

datatype js_error = TypeError | SyntaxError | NetworkError

datatype 'a outcome = Resolved 'a | Rejected js_error

text \<open>
  Property access \<^verbatim>\<open>v.name\<close>, for the names the screens read (\<^verbatim>\<open>articles\<close>,
  \<^verbatim>\<open>length\<close>, \<^verbatim>\<open>title\<close>, \<^verbatim>\<open>summary\<close>, \<^verbatim>\<open>content\<close>): reading a property of \<^verbatim>\<open>null\<close>
  or \<^verbatim>\<open>undefined\<close> throws a TypeError, an object yields its own entry, arrays and
  strings have a \<^verbatim>\<open>length\<close>, everything else yields \<^verbatim>\<open>undefined\<close>. The entries of
  \<open>JObj\<close> are those of the parsed object, each key once.
\<close>

fun get_prop :: "jsval \<Rightarrow> string \<Rightarrow> js_error + jsval" where
  "get_prop Undefined name = Inl TypeError"
| "get_prop (J JNull) name = Inl TypeError"
| "get_prop (J (JObj kvs)) name =
     Inr (case map_of kvs name of None \<Rightarrow> Undefined | Some v \<Rightarrow> J v)"
| "get_prop (J (JArr xs)) name =
     Inr (if name = ''length'' then J (JNum (int (length xs))) else Undefined)"
| "get_prop (J (JStr s)) name =
     Inr (if name = ''length'' then J (JNum (int (length s))) else Undefined)"
| "get_prop (J (JBool b)) name = Inr Undefined"
| "get_prop (J (JNum n)) name = Inr Undefined"

text \<open>Truthiness, as a condition or the left operand of \<^verbatim>\<open>&&\<close> reads a value.\<close>

fun truthy :: "jsval \<Rightarrow> bool" where
  "truthy Undefined = False"
| "truthy (J JNull) = False"
| "truthy (J (JBool b)) = b"
| "truthy (J (JNum n)) = (n \<noteq> 0)"
| "truthy (J (JStr s)) = (s \<noteq> [])"
| "truthy (J (JArr xs)) = True"
| "truthy (J (JObj kvs)) = True"

text \<open>
  Two things the screens rely on are decided by the JavaScript engine and by React, not
  by the repository; a \<open>host\<close> gives them.
  \<^item> \<open>coerced_gt_zero v\<close> is the result of \<^verbatim>\<open>v > 0\<close> for a string, an array or an
    object: the language converts it to a primitive and then through its
    string-to-number parser, and the conversion may throw.
  \<^item> \<open>setData_error v\<close> is the error that comes out of the call \<^verbatim>\<open>setData(v)\<close>, if any.
    A root that renders synchronously renders the list inside the call, and an error
    thrown while a row renders comes out of it; a root that renders later returns from
    every call. What React does with the component after such an error is not modelled.
\<close>

record host =
  coerced_gt_zero :: "json \<Rightarrow> js_error + bool"
  setData_error :: "jsval \<Rightarrow> js_error option"

text \<open>
  The comparison \<^verbatim>\<open>v > 0\<close>. The operand is converted to a number first:
  \<^verbatim>\<open>undefined\<close> becomes NaN, \<^verbatim>\<open>null\<close> becomes 0, \<^verbatim>\<open>true\<close> becomes 1, and a
  comparison with NaN is false.
\<close>

fun js_gt_zero :: "host \<Rightarrow> jsval \<Rightarrow> js_error + bool" where
  "js_gt_zero h Undefined = Inr False"
| "js_gt_zero h (J JNull) = Inr False"
| "js_gt_zero h (J (JBool b)) = Inr b"
| "js_gt_zero h (J (JNum n)) = Inr (0 < n)"
| "js_gt_zero h (J (JStr s)) = coerced_gt_zero h (JStr s)"
| "js_gt_zero h (J (JArr xs)) = coerced_gt_zero h (JArr xs)"
| "js_gt_zero h (J (JObj kvs)) = coerced_gt_zero h (JObj kvs)"

text \<open>
  \<^verbatim>\<open>Array.prototype.slice(start, end)\<close>: a negative index counts from the end, both
  indices are clamped to the array, and an empty range gives the empty array.
\<close>

definition js_slice :: "'a list \<Rightarrow> int \<Rightarrow> int \<Rightarrow> 'a list" where
  "js_slice xs start end' =
     (let len = int (length xs);
          k = (if start < 0 then max (len + start) 0 else min start len);
          final = (if end' < 0 then max (len + end') 0 else min end' len)
      in take (nat (final - k)) (drop (nat k) xs))"

text \<open>The text of a number inside a template literal (\<^verbatim>\<open>`${n}`\<close>).\<close>

fun digits :: "nat \<Rightarrow> string" where
  "digits n =
     (if n < 10 then [''0123456789'' ! n]
      else digits (n div 10) @ [''0123456789'' ! (n mod 10)])"

definition number_to_string :: "int \<Rightarrow> string" where
  "number_to_string n = (if n < 0 then ''-'' @ digits (nat (- n)) else digits (nat n))"

section \<open>The mock feed screen\<close>

subsection \<open>The data set\<close>

datatype asset = ReactLogo

record item =
  item_id :: int
  item_title :: string
  item_thumbnail :: asset

definition TOTAL_ITEMS :: nat where
  "TOTAL_ITEMS = 50"

definition PAGE_SIZE :: int where
  "PAGE_SIZE = 5"

text \<open>
  \<^verbatim>\<open>Array.from({ length: TOTAL_ITEMS }, (_, index) => ({ id: index + 1,
  title: `News ${index + 1}`, thumbnail: require(...) }))\<close>
\<close>

definition MOCK_DATA :: "item list" where
  "MOCK_DATA =
     map (\<lambda>index. \<lparr>item_id = int index + 1,
                    item_title = ''News '' @ number_to_string (int index + 1),
                    item_thumbnail = ReactLogo\<rparr>)
       [0..<TOTAL_ITEMS]"

text \<open>
  \<open>simulateFetch\<close> builds a promise whose executor only arms a timer; the timer's
  callback slices \<open>MOCK_DATA\<close> and resolves. The executor takes no \<^verbatim>\<open>reject\<close>.
\<close>

definition simulateFetch :: "int \<Rightarrow> item list outcome" where
  "simulateFetch page' =
     (let start = (page' - 1) * PAGE_SIZE;
          end' = start + PAGE_SIZE;
          result = js_slice MOCK_DATA start end'
      in Resolved result)"

section \<open>State and actions of a screen\<close>

text \<open>
  The component state, one field per \<^verbatim>\<open>useState\<close>. The remote screen has the three
  fields below; the mock screen adds \<open>page\<close>.
\<close>

record 'd feed_state =
  data :: 'd
  loading :: bool
  hasMore :: bool

record mock_state = "item list feed_state" +
  page :: int

text \<open>
  What \<open>fetchData\<close> does to the world, in program order: calls of the state setters,
  console output, and the launch of a fetch.
\<close>

datatype action =
    SetLoading bool
  | SetHasMore bool
  | SetData jsval
  | AppendData "item list"
  | IncrementPage
  | ConsoleLog string
  | ConsoleError string js_error
  | SimulateFetch int
  | Fetch string

text \<open>
  The mock screen calls \<^verbatim>\<open>setData(prevData => [...prevData, ...result])\<close> (\<open>AppendData\<close>)
  and \<^verbatim>\<open>setPage(prevPage => prevPage + 1)\<close> (\<open>IncrementPage\<close>): both updaters read the
  state current when they are applied.
\<close>

fun mock_apply :: "mock_state \<Rightarrow> action \<Rightarrow> mock_state" where
  "mock_apply s (SetLoading b) = s\<lparr>loading := b\<rparr>"
| "mock_apply s (SetHasMore b) = s\<lparr>hasMore := b\<rparr>"
| "mock_apply s (AppendData result) = s\<lparr>data := data s @ result\<rparr>"
| "mock_apply s IncrementPage = s\<lparr>page := page s + 1\<rparr>"
| "mock_apply s other = s"

definition mock_initial :: mock_state where
  "mock_initial = \<lparr>data = [], loading = False, hasMore = True, page = 1\<rparr>"

subsection \<open>fetchData of the mock screen\<close>

text \<open>
  \<open>fetchData\<close> is an async function: it runs up to its \<^verbatim>\<open>await\<close>, and its
  continuation runs when the promise settles. \<open>mock_fetchData_start\<close> is the first
  part: the guard, \<^verbatim>\<open>setLoading(true)\<close> and the call \<^verbatim>\<open>simulateFetch(page)\<close>. Its
  argument is what the closure reads as \<^verbatim>\<open>loading\<close>, \<^verbatim>\<open>hasMore\<close> and \<^verbatim>\<open>page\<close>: the
  constants of the render that created the function, not the state as it is when the
  function is called. \<open>mock_fetchData_resume\<close> is the continuation.
\<close>

definition mock_fetchData_start :: "mock_state \<Rightarrow> action list" where
  "mock_fetchData_start s =
     (if loading s \<or> \<not> hasMore s then []
      else [SetLoading True, SimulateFetch (page s)])"

fun mock_fetchData_resume :: "item list outcome \<Rightarrow> action list" where
  "mock_fetchData_resume (Resolved result) =
     (if length result = 0 then [SetHasMore False]
      else [AppendData result, IncrementPage])
     @ [SetLoading False]"
| "mock_fetchData_resume (Rejected error) =
     [ConsoleError ''Error fetching data: '' error] @ [SetLoading False]"

subsection \<open>A screen instance and its events\<close>

text \<open>
  A screen instance: its state; the state as the last render saw it, which is what the
  \<open>fetchData\<close> of that render reads; the fetches that have not settled yet; and whether
  the component has been unmounted. For the mock screen the outstanding fetches are the
  pages \<open>simulateFetch\<close> was called with; all its timers wait one second, so they fire
  in the order they were armed.
\<close>

record ('s, 'p) screen =
  state :: 's
  rendered :: 's
  pending :: 'p
  unmounted :: bool

text \<open>
  \<open>Mount\<close> is the effect \<^verbatim>\<open>useEffect(() => { fetchData(); }, [])\<close>, which runs once
  after the first render; \<open>EndReached\<close> is the list's \<^verbatim>\<open>onEndReached\<close>; both call the
  \<open>fetchData\<close> of the last render. \<open>Settled r\<close> is the settling of the oldest outstanding
  fetch with \<open>r\<close>, \<open>Render\<close> a render of the component, which creates a new \<open>fetchData\<close>
  over the state as it is then, and \<open>Unmount\<close> the removal of the component.

  Neither component registers a cleanup or checks a mounted flag, so \<open>Settled\<close> runs the
  continuation of \<open>fetchData\<close> whatever \<open>unmounted\<close> says. React ignores a setter called
  on an unmounted component and renders it no more: the calls are made, the state stays.
\<close>

datatype 'r event = Mount | EndReached | Settled 'r | Render | Unmount

text \<open>The mock screen's promise settles by its timer alone: the event carries nothing.\<close>

abbreviation TimerFired :: "unit event" where
  "TimerFired \<equiv> Settled ()"


fun launched :: "action list \<Rightarrow> int list" where
  "launched [] = []"
| "launched (SimulateFetch p # as) = p # launched as"
| "launched (a # as) = launched as"

fun mock_actions :: "unit event \<Rightarrow> (mock_state, int list) screen \<Rightarrow> action list" where
  "mock_actions Mount c = mock_fetchData_start (rendered c)"
| "mock_actions EndReached c = mock_fetchData_start (rendered c)"
| "mock_actions (Settled u) c =
     (case pending c of
        [] \<Rightarrow> []
      | p # ps \<Rightarrow> mock_fetchData_resume (simulateFetch p))"
| "mock_actions Render c = []"
| "mock_actions Unmount c = []"

definition mock_step ::
  "(mock_state, int list) screen \<Rightarrow> unit event \<Rightarrow> (mock_state, int list) screen" where
  "mock_step c e =
     \<lparr>state = (if unmounted c then state c
               else foldl mock_apply (state c) (mock_actions e c)),
      rendered = (if e = Render \<and> \<not> unmounted c then state c else rendered c),
      pending = (if e = TimerFired then drop 1 (pending c)
                 else pending c @ launched (mock_actions e c)),
      unmounted = (unmounted c \<or> e = Unmount)\<rparr>"

definition mock_screen :: "(mock_state, int list) screen" where
  "mock_screen =
     \<lparr>state = mock_initial, rendered = mock_initial, pending = [], unmounted = False\<rparr>"

definition mock_run :: "unit event list \<Rightarrow> (mock_state, int list) screen" where
  "mock_run events = foldl mock_step mock_screen events"

text \<open>
  One whole invocation of \<open>fetchData\<close>: the call, then its timer firing, each followed
  by the render that the state change brings.
\<close>

definition mock_fetchData :: "(mock_state, int list) screen \<Rightarrow> (mock_state, int list) screen" where
  "mock_fetchData c =
     mock_step (mock_step (mock_step (mock_step c EndReached) Render) TimerFired) Render"

section \<open>The remote feed screen\<close>

definition BACKEND_URL :: string where
  "BACKEND_URL = ''http://AINewsBackend.eu.pythonanywhere.com''"

text \<open>
  \<^verbatim>\<open>fetch(url)\<close> settles with a response or rejects; \<^verbatim>\<open>response.json()\<close> settles
  with the parsed body or rejects.
\<close>

datatype response = Response (json_result: "json outcome")

type_synonym remote_state = "jsval feed_state"

fun remote_apply :: "remote_state \<Rightarrow> action \<Rightarrow> remote_state" where
  "remote_apply s (SetLoading b) = s\<lparr>loading := b\<rparr>"
| "remote_apply s (SetHasMore b) = s\<lparr>hasMore := b\<rparr>"
| "remote_apply s (SetData v) = s\<lparr>data := v\<rparr>"
| "remote_apply s other = s"

definition remote_initial :: remote_state where
  "remote_initial = \<lparr>data = J (JArr []), loading = False, hasMore = True\<rparr>"

subsection \<open>The row renderer\<close>

text \<open>
  A rendered card: the bundled image, the title text and the body text. A text that is
  \<open>Undefined\<close> shows nothing.
\<close>

record card =
  card_image :: asset
  card_title :: jsval
  card_body :: jsval

text \<open>
  \<^verbatim>\<open>{item.title}\<close> and \<^verbatim>\<open>{item.summary ? item.summary : item.content}\<close>. The
  function also logs the item; the log is left out.
\<close>

definition remote_renderItem :: "jsval \<Rightarrow> nat \<Rightarrow> js_error + card" where
  "remote_renderItem item' index =
     (case get_prop item' ''title'' of
        Inl error \<Rightarrow> Inl error
      | Inr title \<Rightarrow>
          (case get_prop item' ''summary'' of
             Inl error \<Rightarrow> Inl error
           | Inr summary \<Rightarrow>
               if truthy summary then
                 Inr \<lparr>card_image = ReactLogo, card_title = title, card_body = summary\<rparr>
               else
                 (case get_prop item' ''content'' of
                    Inl error \<Rightarrow> Inl error
                  | Inr content \<Rightarrow>
                      Inr \<lparr>card_image = ReactLogo, card_title = title, card_body = content\<rparr>)))"

text \<open>
  The list renders one row per element of \<open>data\<close>, in order, passing the element and
  its index. What the list widget does with a \<open>data\<close> that is no array is not the
  repository's code: \<open>None\<close>.
\<close>

definition remote_rows :: "jsval \<Rightarrow> (js_error + card) list option" where
  "remote_rows d =
     (case d of
        J (JArr items) \<Rightarrow>
          Some (map (\<lambda>(index, item'). remote_renderItem (J item') index) (enumerate 0 items))
      | _ \<Rightarrow> None)"

text \<open>
  Rows that cannot throw while they render: the row renderer returns a card, and the
  title and the body are texts, numbers, booleans, \<^verbatim>\<open>null\<close> or \<^verbatim>\<open>undefined\<close>, which
  React accepts as the children of a text element. Only of other data does the model
  ask the host whether \<^verbatim>\<open>setData\<close> throws. (On a root that renders later, a row that
  throws makes React remove the component: the event \<open>Unmount\<close> below.)
\<close>

fun plain_child :: "jsval \<Rightarrow> bool" where
  "plain_child (J (JArr xs)) = False"
| "plain_child (J (JObj kvs)) = False"
| "plain_child v = True"

fun row_safe :: "js_error + card \<Rightarrow> bool" where
  "row_safe (Inl error) = False"
| "row_safe (Inr c) = (plain_child (card_title c) \<and> plain_child (card_body c))"

definition rows_safe :: "jsval \<Rightarrow> bool" where
  "rows_safe d = (case remote_rows d of None \<Rightarrow> False | Some rows \<Rightarrow> list_all row_safe rows)"

definition setData_thrown :: "host \<Rightarrow> jsval \<Rightarrow> js_error option" where
  "setData_thrown h d = (if rows_safe d then None else setData_error h d)"

subsection \<open>fetchData of the remote screen\<close>

text \<open>
  As on the mock screen, the first part of \<open>fetchData\<close> takes what the closure reads as
  \<^verbatim>\<open>loading\<close> and \<^verbatim>\<open>hasMore\<close>: the constants of the render that created it.
\<close>

definition remote_fetchData_start :: "remote_state \<Rightarrow> action list" where
  "remote_fetchData_start s =
     (if loading s \<or> \<not> hasMore s then [ConsoleLog ''Skipping fetch: loading='']
      else [ConsoleLog ''Starting data fetch...'', SetLoading True,
            Fetch (BACKEND_URL @ ''/top-news'')])"

text \<open>
  The condition \<^verbatim>\<open>json.articles && json.articles.length > 0\<close>, on the value of
  \<^verbatim>\<open>json.articles\<close>: \<^verbatim>\<open>&&\<close> reads \<^verbatim>\<open>length\<close> only of a truthy value.
\<close>

definition articles_found :: "host \<Rightarrow> jsval \<Rightarrow> js_error + bool" where
  "articles_found h articles =
     (if truthy articles then
        (case get_prop articles ''length'' of
           Inl error \<Rightarrow> Inl error
         | Inr n \<Rightarrow> js_gt_zero h n)
      else Inr False)"

text \<open>
  The body of the \<^verbatim>\<open>try\<close> after \<^verbatim>\<open>await fetch(...)\<close>: the actions it performs, and the
  error it throws if it does not reach its end. Both awaits are taken in one step: the
  continuation reads nothing that an event between them could change.
\<close>

definition remote_try :: "host \<Rightarrow> response outcome \<Rightarrow> action list \<times> js_error option" where
  "remote_try h fetched =
     (case fetched of
        Rejected error \<Rightarrow> ([], Some error)
      | Resolved response \<Rightarrow>
          (case json_result response of
             Rejected error \<Rightarrow> ([ConsoleLog ''Fetch response received:''], Some error)
           | Resolved json \<Rightarrow>
               (case get_prop (J json) ''articles'' of
                  Inl error \<Rightarrow>
                    ([ConsoleLog ''Fetch response received:'', ConsoleLog ''Parsed JSON:''],
                     Some error)
                | Inr articles \<Rightarrow>
                    (case articles_found h articles of
                       Inl error \<Rightarrow>
                         ([ConsoleLog ''Fetch response received:'', ConsoleLog ''Parsed JSON:''],
                          Some error)
                     | Inr True \<Rightarrow>
                         (case setData_thrown h articles of
                            Some error \<Rightarrow>
                              ([ConsoleLog ''Fetch response received:'',
                                ConsoleLog ''Parsed JSON:'',
                                ConsoleLog ''Articles found, updating state with articles:'',
                                SetData articles],
                               Some error)
                          | None \<Rightarrow>
                              ([ConsoleLog ''Fetch response received:'',
                                ConsoleLog ''Parsed JSON:'',
                                ConsoleLog ''Articles found, updating state with articles:'',
                                SetData articles, SetHasMore False],
                               None))
                     | Inr False \<Rightarrow>
                         ([ConsoleLog ''Fetch response received:'', ConsoleLog ''Parsed JSON:'',
                           ConsoleLog ''No articles found, setting hasMore to false'',
                           SetHasMore False],
                          None)))))"

text \<open>The continuation: \<^verbatim>\<open>try\<close>, then \<^verbatim>\<open>catch\<close> if it threw, then \<^verbatim>\<open>finally\<close>.\<close>

definition remote_fetchData_resume :: "host \<Rightarrow> response outcome \<Rightarrow> action list" where
  "remote_fetchData_resume h fetched =
     (case remote_try h fetched of
        (performed, None) \<Rightarrow> performed
      | (performed, Some error) \<Rightarrow> performed @ [ConsoleError ''Error fetching news:'' error])
     @ [ConsoleLog ''Fetch complete, setting loading to false'', SetLoading False]"

subsection \<open>The remote screen's events\<close>

text \<open>
  The outstanding requests are counted: the continuation reads nothing of the call
  that launched it, so which request a response answers makes no difference.
\<close>

fun requests :: "action list \<Rightarrow> string list" where
  "requests [] = []"
| "requests (Fetch url # as) = url # requests as"
| "requests (a # as) = requests as"

fun remote_actions ::
  "host \<Rightarrow> response outcome event \<Rightarrow> (remote_state, nat) screen \<Rightarrow> action list" where
  "remote_actions h Mount c =
     [ConsoleLog ''Component mounted, initiating first data fetch...'']
     @ remote_fetchData_start (rendered c)"
| "remote_actions h EndReached c =
     [ConsoleLog ''End of list reached, fetching more data...'']
     @ remote_fetchData_start (rendered c)"
| "remote_actions h (Settled fetched) c =
     (if pending c = 0 then [] else remote_fetchData_resume h fetched)"
| "remote_actions h Render c = []"
| "remote_actions h Unmount c = []"

fun is_settled :: "'r event \<Rightarrow> bool" where
  "is_settled (Settled r) = True"
| "is_settled e = False"

definition remote_step ::
  "host \<Rightarrow> (remote_state, nat) screen \<Rightarrow> response outcome event
     \<Rightarrow> (remote_state, nat) screen" where
  "remote_step h c e =
     \<lparr>state = (if unmounted c then state c
               else foldl remote_apply (state c) (remote_actions h e c)),
      rendered = (if e = Render \<and> \<not> unmounted c then state c else rendered c),
      pending = (if is_settled e then pending c - 1
                 else pending c + length (requests (remote_actions h e c))),
      unmounted = (unmounted c \<or> e = Unmount)\<rparr>"

definition remote_screen :: "(remote_state, nat) screen" where
  "remote_screen =
     \<lparr>state = remote_initial, rendered = remote_initial, pending = 0, unmounted = False\<rparr>"

definition remote_run ::
  "host \<Rightarrow> response outcome event list \<Rightarrow> (remote_state, nat) screen" where
  "remote_run h events = foldl (remote_step h) remote_screen events"

text \<open>
  A host for concrete runs: its root renders after the setter has returned. No run below
  compares a text with a number.
\<close>

definition example_host :: host where
  "example_host = \<lparr>coerced_gt_zero = (\<lambda>v. Inr False), setData_error = (\<lambda>v. None)\<rparr>"

section \<open>Invariants\<close>



text \<open>A mounted screen with nothing outstanding whose last render has seen its state.\<close>

definition mock_idle :: "mock_state \<Rightarrow> (mock_state, int list) screen" where
  "mock_idle s = \<lparr>state = s, rendered = s, pending = [], unmounted = False\<rparr>"

definition remote_idle :: "remote_state \<Rightarrow> (remote_state, nat) screen" where
  "remote_idle s = \<lparr>state = s, rendered = s, pending = 0, unmounted = False\<rparr>"

section \<open>Properties of the mock screen\<close>

subsection \<open>Slices of the data set\<close>

lemma length_MOCK_DATA: "length MOCK_DATA = 50"
  by (simp add: MOCK_DATA_def TOTAL_ITEMS_def)

lemma js_slice_window:
  assumes "0 \<le> a"
  shows "js_slice xs a (a + 5) = take 5 (drop (nat a) xs)"
proof (cases "a \<le> int (length xs)")
  case True
  with assms have "js_slice xs a (a + 5)
      = take (nat (min (a + 5) (int (length xs)) - a)) (drop (nat a) xs)"
    by (simp add: js_slice_def Let_def min_def)
  also have "nat (min (a + 5) (int (length xs)) - a) = min 5 (length (drop (nat a) xs))"
    using assms True by (simp add: min_def) linarith
  finally show ?thesis by (simp add: min_def)
next
  case False
  with assms show ?thesis
    by (simp add: js_slice_def Let_def min_def)
qed

lemma simulateFetch_page:
  assumes "1 \<le> p"
  shows "simulateFetch p = Resolved (take 5 (drop (nat (5 * (p - 1))) MOCK_DATA))"
  using assms js_slice_window [of "(p - 1) * 5" MOCK_DATA]
  by (simp add: simulateFetch_def PAGE_SIZE_def Let_def mult.commute)

subsection \<open>The invariant holds when every event is followed by a render\<close>












declare digits.simps [simp del]





subsection \<open>Ten pages, then the end\<close>

lemma mock_after_fetches:
  "k \<le> 10 \<Longrightarrow>
   (mock_fetchData ^^ k) mock_screen =
     mock_idle
          \<lparr>data = take (5 * k) MOCK_DATA, loading = False, hasMore = True, page = 1 + int k\<rparr>"
proof (induction k)
  case 0
  show ?case by (simp add: mock_screen_def mock_initial_def mock_idle_def)
next
  case (Suc k)
  then have k: "k < 10" by simp
  have nonempty: "take 5 (drop (5 * k) MOCK_DATA) \<noteq> []"
    using k by (simp add: length_MOCK_DATA)
  have n: "nat (5 * int k) = 5 * k" by simp
  from Suc show ?case
    using nonempty
    by (simp add: mock_fetchData_def mock_step_def mock_fetchData_start_def mock_idle_def
        simulateFetch_page n take_add [symmetric] add.commute)
qed

lemma mock_fetchData_stopped:
  assumes "\<not> hasMore s"
  shows "mock_fetchData (mock_idle s) = mock_idle s"
  using assms
  by (simp add: mock_fetchData_def mock_step_def mock_fetchData_start_def mock_idle_def)

text \<open>
  Claim C1. The mock screen starts with no data, page 1, \<open>hasMore\<close> set and \<open>loading\<close>
  clear. Each of the first ten completed invocations of \<open>fetchData\<close> gets from
  \<open>simulateFetch\<close> the slice of \<open>MOCK_DATA\<close> for the current page, which has exactly five
  items, appends it and adds one to the page, so that after ten invocations the list is
  all fifty items of \<open>MOCK_DATA\<close>. The eleventh gets the empty slice: it clears \<open>hasMore\<close>
  and leaves the list and the page as they were, and every later invocation changes
  nothing. (The first invocation comes from the mount effect, the others from the end
  of the list: both call the same function.)
\<close>

theorem mock_ten_fetches:
  "state mock_screen = \<lparr>data = [], loading = False, hasMore = True, page = 1\<rparr> \<and>
   (\<forall>k<10.
      let c = (mock_fetchData ^^ k) mock_screen;
          c' = mock_fetchData c;
          start = (page (state c) - 1) * PAGE_SIZE;
          result = js_slice MOCK_DATA start (start + PAGE_SIZE)
      in simulateFetch (page (state c)) = Resolved result \<and>
         length result = 5 \<and>
         data (state c') = data (state c) @ result \<and>
         page (state c') = page (state c) + 1 \<and>
         hasMore (state c') \<and> \<not> loading (state c')) \<and>
   length MOCK_DATA = 50 \<and>
   data (state ((mock_fetchData ^^ 10) mock_screen)) = MOCK_DATA \<and>
   simulateFetch (page (state ((mock_fetchData ^^ 10) mock_screen))) = Resolved [] \<and>
   state ((mock_fetchData ^^ 11) mock_screen)
     = (state ((mock_fetchData ^^ 10) mock_screen))\<lparr>hasMore := False\<rparr> \<and>
   (\<forall>n. state ((mock_fetchData ^^ (11 + n)) mock_screen)
          = state ((mock_fetchData ^^ 11) mock_screen))"
proof -
  have first: "state mock_screen = \<lparr>data = [], loading = False, hasMore = True, page = 1\<rparr>"
    by (simp add: mock_screen_def mock_initial_def)
  have each: "let c = (mock_fetchData ^^ k) mock_screen;
          c' = mock_fetchData c;
          start = (page (state c) - 1) * PAGE_SIZE;
          result = js_slice MOCK_DATA start (start + PAGE_SIZE)
      in simulateFetch (page (state c)) = Resolved result \<and>
         length result = 5 \<and>
         data (state c') = data (state c) @ result \<and>
         page (state c') = page (state c) + 1 \<and>
         hasMore (state c') \<and> \<not> loading (state c')" if k: "k < 10" for k
  proof -
    have before: "(mock_fetchData ^^ k) mock_screen =
        mock_idle
          \<lparr>data = take (5 * k) MOCK_DATA, loading = False, hasMore = True, page = 1 + int k\<rparr>"
      using k by (simp add: mock_after_fetches)
    have after: "mock_fetchData ((mock_fetchData ^^ k) mock_screen) =
        mock_idle
          \<lparr>data = take (5 * Suc k) MOCK_DATA, loading = False, hasMore = True, page = 1 + int (Suc k)\<rparr>"
      using k mock_after_fetches [of "Suc k"] by simp
    have window: "js_slice MOCK_DATA (int k * 5) (int k * 5 + 5)
        = take 5 (drop (5 * k) MOCK_DATA)"
      using js_slice_window [of "int k * 5" MOCK_DATA]
      by (simp add: nat_mult_distrib mult.commute)
    have app: "take (5 + 5 * k) MOCK_DATA
        = take (5 * k) MOCK_DATA @ take 5 (drop (5 * k) MOCK_DATA)"
      by (simp add: take_add [symmetric] add.commute)
    show ?thesis
      using k
      by (simp only: Let_def after)
        (simp add: before PAGE_SIZE_def window app simulateFetch_def length_MOCK_DATA
          mock_idle_def)
  qed
  have ten: "(mock_fetchData ^^ 10) mock_screen =
        mock_idle
          \<lparr>data = MOCK_DATA, loading = False, hasMore = True, page = 11\<rparr>"
    using mock_after_fetches [of 10] by (simp add: length_MOCK_DATA)
  have empty: "simulateFetch 11 = Resolved []"
    by (simp add: simulateFetch_page length_MOCK_DATA)
  have "(mock_fetchData ^^ 11) mock_screen = mock_fetchData ((mock_fetchData ^^ 10) mock_screen)"
    by (simp add: eval_nat_numeral)
  then have eleven: "(mock_fetchData ^^ 11) mock_screen =
        mock_idle
          \<lparr>data = MOCK_DATA, loading = False, hasMore = False, page = 11\<rparr>"
    unfolding ten
    by (simp add: mock_fetchData_def mock_step_def mock_fetchData_start_def mock_idle_def empty)
  have later: "(mock_fetchData ^^ (11 + n)) mock_screen = (mock_fetchData ^^ 11) mock_screen" for n
  proof (induction n)
    case 0
    show ?case by simp
  next
    case (Suc n)
    have "(mock_fetchData ^^ (11 + Suc n)) mock_screen
        = mock_fetchData ((mock_fetchData ^^ (11 + n)) mock_screen)"
      by (simp only: add_Suc_right funpow.simps comp_apply)
    also have "\<dots> = mock_fetchData ((mock_fetchData ^^ 11) mock_screen)"
      by (simp only: Suc.IH)
    also have "\<dots> = (mock_fetchData ^^ 11) mock_screen"
      unfolding eleven by (rule mock_fetchData_stopped) simp
    finally show ?case .
  qed
  show ?thesis
    using first each length_MOCK_DATA empty later
    by (simp add: ten eleven mock_idle_def)
qed

theorem mock_ten_fetches_witness:
  "(3::nat) < 10 \<and>
   simulateFetch 4 = Resolved (js_slice MOCK_DATA 15 20) \<and>
   length (js_slice MOCK_DATA 15 20) = 5 \<and>
   data (state ((mock_fetchData ^^ 4) mock_screen))
     = data (state ((mock_fetchData ^^ 3) mock_screen)) @ js_slice MOCK_DATA 15 20 \<and>
   page (state ((mock_fetchData ^^ 4) mock_screen)) = 5"
proof -
  have p: "page (state ((mock_fetchData ^^ 3) mock_screen)) = 4"
    by (simp add: mock_after_fetches mock_idle_def)
  have s: "(mock_fetchData ^^ 4) mock_screen = mock_fetchData ((mock_fetchData ^^ 3) mock_screen)"
    by (simp add: eval_nat_numeral)
  have "(3::nat) < 10" by simp
  with mock_ten_fetches have
    "let c = (mock_fetchData ^^ 3) mock_screen;
         c' = mock_fetchData c;
         start = (page (state c) - 1) * PAGE_SIZE;
         result = js_slice MOCK_DATA start (start + PAGE_SIZE)
     in simulateFetch (page (state c)) = Resolved result \<and>
        length result = 5 \<and>
        data (state c') = data (state c) @ result \<and>
        page (state c') = page (state c) + 1 \<and>
        hasMore (state c') \<and> \<not> loading (state c')"
    by blast
  then show ?thesis
    by (simp add: Let_def p s PAGE_SIZE_def)
qed

subsection \<open>The list is a prefix of the data set\<close>




subsection \<open>A failing fetch\<close>

lemma simulateFetch_resolved:
  "simulateFetch p = Resolved (js_slice MOCK_DATA ((p - 1) * PAGE_SIZE) ((p - 1) * PAGE_SIZE + PAGE_SIZE))"
  by (simp add: simulateFetch_def Let_def)

lemma mock_resume_sets:
  "SetHasMore True \<notin> set (mock_fetchData_resume (simulateFetch p))"
  "launched (mock_fetchData_resume (simulateFetch p)) = []"
  "last (mock_fetchData_resume (simulateFetch p)) = SetLoading False"
  by (simp_all add: simulateFetch_resolved)

text \<open>
  Claim C7. When the awaited fetch of the mock screen rejects, \<open>fetchData\<close> logs one
  message and, in its \<^verbatim>\<open>finally\<close>, clears \<open>loading\<close>: the list, the page and \<open>hasMore\<close>
  stay as they were (no \<open>SetHasMore\<close> is issued). A later call of \<open>fetchData\<close> therefore
  fetches the same page again if \<open>hasMore\<close> was set.
\<close>

theorem mock_error_keeps_state:
  "mock_fetchData_resume (Rejected error)
     = [ConsoleError ''Error fetching data: '' error, SetLoading False] \<and>
   foldl mock_apply s (mock_fetchData_resume (Rejected error)) = s\<lparr>loading := False\<rparr> \<and>
   data (foldl mock_apply s (mock_fetchData_resume (Rejected error))) = data s \<and>
   page (foldl mock_apply s (mock_fetchData_resume (Rejected error))) = page s \<and>
   hasMore (foldl mock_apply s (mock_fetchData_resume (Rejected error))) = hasMore s \<and>
   \<not> loading (foldl mock_apply s (mock_fetchData_resume (Rejected error))) \<and>
   mock_fetchData_start (foldl mock_apply s (mock_fetchData_resume (Rejected error)))
     = (if hasMore s then [SetLoading True, SimulateFetch (page s)] else [])"
  by (simp add: mock_fetchData_start_def)

theorem mock_error_keeps_state_witness:
  "foldl mock_apply (mock_initial\<lparr>loading := True\<rparr>) (mock_fetchData_resume (Rejected NetworkError))
     = mock_initial \<and>
   mock_fetchData_start
     (foldl mock_apply (mock_initial\<lparr>loading := True\<rparr>)
        (mock_fetchData_resume (Rejected NetworkError)))
     = [SetLoading True, SimulateFetch 1]"
  using mock_error_keeps_state [of NetworkError "mock_initial\<lparr>loading := True\<rparr>"]
  by (simp add: mock_initial_def)

text \<open>
  Claim C8. \<open>simulateFetch\<close> resolves for every page number and never rejects, so the
  \<^verbatim>\<open>catch\<close> branch of the mock screen's \<open>fetchData\<close> is never taken: no event on any
  screen makes it log an error.
\<close>

theorem mock_fetch_cannot_fail:
  "simulateFetch p \<noteq> Rejected error \<and>
   (\<exists>result. simulateFetch p = Resolved result) \<and>
   ConsoleError message error \<notin> set (mock_fetchData_resume (simulateFetch p)) \<and>
   ConsoleError message error \<notin> set (mock_actions e c)"
proof -
  have resolved: "simulateFetch q = Resolved (js_slice MOCK_DATA ((q - 1) * PAGE_SIZE)
      ((q - 1) * PAGE_SIZE + PAGE_SIZE))" for q
    by (simp add: simulateFetch_def Let_def)
  have resume: "ConsoleError message error \<notin> set (mock_fetchData_resume (simulateFetch q))" for q
    by (simp add: resolved)
  have "ConsoleError message error \<notin> set (mock_actions e c)"
  proof (cases e)
    case (Settled u)
    then show ?thesis
      using resume by (cases "pending c") simp_all
  qed (simp_all add: mock_fetchData_start_def)
  with resolved resume show ?thesis by simp
qed

theorem mock_fetch_cannot_fail_witness:
  "simulateFetch 11 = Resolved [] \<and>
   simulateFetch 11 \<noteq> Rejected NetworkError \<and>
   ConsoleError ''Error fetching data: '' NetworkError
     \<notin> set (mock_actions TimerFired (mock_run [Mount]))"
  using mock_fetch_cannot_fail [of 11 NetworkError "''Error fetching data: ''" TimerFired "mock_run [Mount]"]
  by (simp add: simulateFetch_page length_MOCK_DATA)

section \<open>Properties of the remote screen\<close>

subsection \<open>What the continuation issues\<close>

lemmas remote_eval =
  remote_run_def remote_screen_def remote_initial_def remote_step_def
  remote_fetchData_start_def remote_fetchData_resume_def remote_try_def articles_found_def
  setData_thrown_def rows_safe_def remote_rows_def remote_renderItem_def


lemma requests_append: "requests (as @ bs) = requests as @ requests bs"
  by (induction as rule: requests.induct) simp_all

lemma remote_resume_sets:
  "SetHasMore True \<notin> set (remote_fetchData_resume h fetched)"
  "requests (remote_fetchData_resume h fetched) = []"
  "last (remote_fetchData_resume h fetched) = SetLoading False"
  by (auto simp: remote_fetchData_resume_def remote_try_def requests_append
      split: outcome.splits sum.splits bool.splits option.splits)

lemma remote_try_absent:
  "remote_try h (Resolved (Response (Resolved (JObj kvs)))) =
     ([ConsoleLog ''Fetch response received:'', ConsoleLog ''Parsed JSON:'',
       ConsoleLog ''No articles found, setting hasMore to false'', SetHasMore False],
      None)"
  if "map_of kvs ''articles'' = None"
  using that by (simp add: remote_try_def articles_found_def)

lemma remote_try_empty:
  "remote_try h (Resolved (Response (Resolved (JObj kvs)))) =
     ([ConsoleLog ''Fetch response received:'', ConsoleLog ''Parsed JSON:'',
       ConsoleLog ''No articles found, setting hasMore to false'', SetHasMore False],
      None)"
  if "map_of kvs ''articles'' = Some (JArr [])"
  using that by (simp add: remote_try_def articles_found_def)

lemma remote_try_safe_rows:
  assumes "map_of kvs ''articles'' = Some (JArr xs)" and "rows_safe (J (JArr xs))"
  shows "snd (remote_try h (Resolved (Response (Resolved (JObj kvs))))) = None"
  using assms
  by (simp add: remote_try_def articles_found_def setData_thrown_def split: bool.splits)

lemma remote_try_completed:
  assumes "snd (remote_try h fetched) = None"
  shows "\<not> hasMore (foldl remote_apply s (remote_fetchData_resume h fetched))"
  using assms
  by (auto simp: remote_fetchData_resume_def remote_try_def
      split: outcome.splits sum.splits bool.splits option.splits)

lemma remote_try_thrown:
  assumes "snd (remote_try h fetched) = Some error"
  shows "hasMore (foldl remote_apply s (remote_fetchData_resume h fetched)) = hasMore s"
    and "SetHasMore False \<notin> set (remote_fetchData_resume h fetched)"
  using assms
  by (auto simp: remote_fetchData_resume_def remote_try_def
      split: outcome.splits sum.splits bool.splits option.splits)



lemma remote_stopped_step:
  assumes "\<not> hasMore s"
  shows "remote_step h (remote_idle s) EndReached = remote_idle s"
  using assms by (simp add: remote_step_def remote_fetchData_start_def remote_idle_def)

lemma remote_quiet_after:
  assumes "\<not> unmounted r" and "pending r = 0" and "\<not> hasMore (state r)"
    and "loading (rendered r) \<or> \<not> hasMore (rendered r)"
    and "list_all (\<lambda>e. e = EndReached \<or> e = Render) later"
  shows "state (foldl (remote_step h) r later) = state r \<and>
         requests (remote_actions h EndReached (foldl (remote_step h) r later)) = []"
  using assms
proof (induction later arbitrary: r)
  case Nil
  then show ?case
    by (auto simp: remote_fetchData_start_def)
next
  case (Cons e later)
  from Cons.prems have e: "e = EndReached \<or> e = Render"
    by simp
  from e Cons.prems have next_state: "state (remote_step h r e) = state r"
    and "\<not> unmounted (remote_step h r e)" and "pending (remote_step h r e) = 0"
    and "loading (rendered (remote_step h r e)) \<or> \<not> hasMore (rendered (remote_step h r e))"
    by (auto simp: remote_step_def remote_fetchData_start_def)
  with Cons.prems Cons.IH [of "remote_step h r e"] show ?case
    by simp
qed

subsection \<open>One response with two articles\<close>

text \<open>
  Claim C2. The mount effect issues one GET to \<open>BACKEND_URL\<close>\<^verbatim>\<open>/top-news\<close>. When its body
  parses to \<^verbatim>\<open>{ articles: [{title:"A"}, {title:"B"}] }\<close>, then after \<open>fetchData\<close> has
  completed (and the component has rendered the new state) the list is exactly these
  two articles, rendered as two rows with the titles A and B (and no body text), and
  \<open>hasMore\<close> is false, on every host. Every later end-of-list trigger returns at the
  guard: it issues no request and changes nothing, whether it comes before or after the
  render of the new state.
\<close>

theorem remote_two_articles:
  "(let a = JObj [(''title'', JStr ''A'')];
        b = JObj [(''title'', JStr ''B'')];
        body = JObj [(''articles'', JArr [a, b])];
        c = remote_run h [Mount, Render, Settled (Resolved (Response (Resolved body))), Render]
    in requests (remote_actions h Mount remote_screen) = [BACKEND_URL @ ''/top-news''] \<and>
       data (state c) = J (JArr [a, b]) \<and>
       remote_rows (data (state c)) =
         Some [Inr \<lparr>card_image = ReactLogo, card_title = J (JStr ''A''), card_body = Undefined\<rparr>,
               Inr \<lparr>card_image = ReactLogo, card_title = J (JStr ''B''), card_body = Undefined\<rparr>] \<and>
       hasMore (state c) = False \<and>
       loading (state c) = False \<and>
       pending c = 0 \<and>
       requests (remote_actions h EndReached c) = [] \<and>
       foldl (remote_step h) c (replicate n EndReached) = c \<and>
       (list_all (\<lambda>e. e = EndReached \<or> e = Render) later \<longrightarrow>
          state (foldl (remote_step h)
                  (remote_run h [Mount, Render, Settled (Resolved (Response (Resolved body)))])
                  later) = state c \<and>
          requests (remote_actions h EndReached
              (foldl (remote_step h)
                 (remote_run h [Mount, Render, Settled (Resolved (Response (Resolved body)))])
                 later)) = []))"
proof -
  define body where
    "body = JObj [(''articles'', JArr [JObj [(''title'', JStr ''A'')], JObj [(''title'', JStr ''B'')]])]"
  define c where
    "c = remote_run h [Mount, Render, Settled (Resolved (Response (Resolved body))), Render]"
  have c: "c = remote_idle
      \<lparr>data = J (JArr [JObj [(''title'', JStr ''A'')], JObj [(''title'', JStr ''B'')]]),
       loading = False, hasMore = False\<rparr>"
    by (simp add: c_def body_def remote_eval remote_idle_def)
  have first: "requests (remote_actions h Mount remote_screen) = [BACKEND_URL @ ''/top-news'']"
    by (simp add: remote_screen_def remote_initial_def remote_fetchData_start_def)
  have rows: "remote_rows (data (state c)) =
         Some [Inr \<lparr>card_image = ReactLogo, card_title = J (JStr ''A''), card_body = Undefined\<rparr>,
               Inr \<lparr>card_image = ReactLogo, card_title = J (JStr ''B''), card_body = Undefined\<rparr>]"
    by (simp add: c remote_rows_def remote_renderItem_def remote_idle_def)
  have skip: "requests (remote_actions h EndReached c) = []"
    by (simp add: c remote_fetchData_start_def remote_idle_def)
  have again: "foldl (remote_step h) c (replicate n EndReached) = c"
  proof (induction n)
    case (Suc n)
    have "remote_step h c EndReached = c"
      unfolding c by (rule remote_stopped_step) simp
    with Suc show ?case by simp
  qed simp
  define before where
    "before = remote_run h [Mount, Render, Settled (Resolved (Response (Resolved body)))]"
  have before: "before =
      \<lparr>state = \<lparr>data = J (JArr [JObj [(''title'', JStr ''A'')], JObj [(''title'', JStr ''B'')]]),
                loading = False, hasMore = False\<rparr>,
       rendered = \<lparr>data = J (JArr []), loading = True, hasMore = True\<rparr>,
       pending = 0, unmounted = False\<rparr>"
    by (simp add: before_def body_def remote_eval)
  have quiet: "state (foldl (remote_step h) before later) = state c \<and>
      requests (remote_actions h EndReached (foldl (remote_step h) before later)) = []"
    if "list_all (\<lambda>e. e = EndReached \<or> e = Render) later"
    using remote_quiet_after [of before later h] that
    by (simp add: before c remote_idle_def)
  show ?thesis
    unfolding Let_def body_def [symmetric] c_def [symmetric] before_def [symmetric]
    using first rows skip again quiet by (simp add: c remote_idle_def)
qed

theorem remote_two_articles_witness:
  "hasMore (state (remote_run example_host
      [Mount, Render,
       Settled (Resolved (Response (Resolved (JObj [(''articles'',
          JArr [JObj [(''title'', JStr ''A'')], JObj [(''title'', JStr ''B'')]])])))),
       Render, EndReached, EndReached])) = False \<and>
   pending (remote_run example_host
      [Mount, Render,
       Settled (Resolved (Response (Resolved (JObj [(''articles'',
          JArr [JObj [(''title'', JStr ''A'')], JObj [(''title'', JStr ''B'')]])])))),
       Render, EndReached, EndReached]) = 0 \<and>
   requests (remote_actions example_host EndReached (remote_run example_host
      [Mount, Render,
       Settled (Resolved (Response (Resolved (JObj [(''articles'',
          JArr [JObj [(''title'', JStr ''A'')], JObj [(''title'', JStr ''B'')]])])))),
       EndReached, Render, EndReached])) = []"
proof -
  let ?response = "Settled (Resolved (Response (Resolved (JObj [(''articles'',
          JArr [JObj [(''title'', JStr ''A'')], JObj [(''title'', JStr ''B'')]])]))))"
  let ?later = "[EndReached, Render, EndReached]"
  have twice: "remote_run example_host ([Mount, Render, ?response, Render] @ replicate 2 EndReached)
      = foldl (remote_step example_host) (remote_run example_host [Mount, Render, ?response, Render])
          (replicate 2 EndReached)"
    unfolding remote_run_def foldl_append ..
  have later: "remote_run example_host ([Mount, Render, ?response] @ ?later)
      = foldl (remote_step example_host) (remote_run example_host [Mount, Render, ?response]) ?later"
    unfolding remote_run_def foldl_append ..
  have only: "list_all (\<lambda>e. e = EndReached \<or> e = Render) ?later"
    by simp
  from remote_two_articles [where h = example_host and n = 2 and later = ?later] only twice later
  show ?thesis
    by (simp add: Let_def eval_nat_numeral)
qed

subsection \<open>Empty response and failed request\<close>

text \<open>
  As claim C3 states it, an empty \<open>articles\<close> array and a failed fetch or parse end in the
  same state, with \<open>hasMore\<close> false. They do not: the \<^verbatim>\<open>catch\<close> branch only logs, so after
  a rejected fetch or an unparsable body \<open>hasMore\<close> is still true, and the next
  end-of-list trigger issues another request.
\<close>

theorem remote_error_keeps_hasMore_counterexample:
  "hasMore (state (remote_run example_host
      [Mount, Render, Settled (Rejected NetworkError), Render])) \<noteq>
   hasMore (state (remote_run example_host
      [Mount, Render,
       Settled (Resolved (Response (Resolved (JObj [(''articles'', JArr [])])))), Render])) \<and>
   hasMore (state (remote_run example_host
      [Mount, Render, Settled (Rejected NetworkError), Render])) = True \<and>
   hasMore (state (remote_run example_host
      [Mount, Render, Settled (Resolved (Response (Rejected SyntaxError))), Render])) = True \<and>
   requests (remote_actions example_host EndReached
      (remote_run example_host [Mount, Render, Settled (Rejected NetworkError), Render]))
     = [BACKEND_URL @ ''/top-news'']"
  by (simp add: remote_eval)

text \<open>
  Claim C3, as amended. An empty \<open>articles\<close> array leaves the list empty (no rows) and
  clears \<open>hasMore\<close>, so no later trigger fetches. A rejected fetch and a body that fails
  to parse also leave the list empty (no rows) and clear \<open>loading\<close>, but they leave
  \<open>hasMore\<close> set: the next end-of-list trigger issues the request again.
\<close>

theorem remote_empty_and_error:
  "(let c = remote_run h
              [Mount, Render,
               Settled (Resolved (Response (Resolved (JObj [(''articles'', JArr [])])))), Render]
    in data (state c) = J (JArr []) \<and> remote_rows (data (state c)) = Some [] \<and>
       hasMore (state c) = False \<and> loading (state c) = False \<and>
       requests (remote_actions h EndReached c) = []) \<and>
   (let c = remote_run h [Mount, Render, Settled (Rejected error), Render]
    in data (state c) = J (JArr []) \<and> remote_rows (data (state c)) = Some [] \<and>
       hasMore (state c) = True \<and> loading (state c) = False \<and>
       requests (remote_actions h EndReached c) = [BACKEND_URL @ ''/top-news'']) \<and>
   (let c = remote_run h [Mount, Render, Settled (Resolved (Response (Rejected error))), Render]
    in data (state c) = J (JArr []) \<and> remote_rows (data (state c)) = Some [] \<and>
       hasMore (state c) = True \<and> loading (state c) = False \<and>
       requests (remote_actions h EndReached c) = [BACKEND_URL @ ''/top-news''])"
proof -
  have empty: "remote_run h
      [Mount, Render, Settled (Resolved (Response (Resolved (JObj [(''articles'', JArr [])])))),
       Render]
    = remote_idle \<lparr>data = J (JArr []), loading = False, hasMore = False\<rparr>"
    by (simp add: remote_eval remote_idle_def)
  have failed: "remote_run h [Mount, Render, Settled (Rejected error), Render]
    = remote_idle \<lparr>data = J (JArr []), loading = False, hasMore = True\<rparr>"
    by (simp add: remote_eval remote_idle_def)
  have unparsed: "remote_run h [Mount, Render, Settled (Resolved (Response (Rejected error))), Render]
    = remote_idle \<lparr>data = J (JArr []), loading = False, hasMore = True\<rparr>"
    by (simp add: remote_eval remote_idle_def)
  show ?thesis
    unfolding Let_def empty failed unparsed
    by (simp add: remote_rows_def remote_fetchData_start_def remote_idle_def)
qed

theorem remote_empty_and_error_witness:
  "hasMore (state (remote_run example_host
      [Mount, Render, Settled (Resolved (Response (Rejected SyntaxError))), Render])) = True \<and>
   loading (state (remote_run example_host
      [Mount, Render, Settled (Resolved (Response (Rejected SyntaxError))), Render])) = False \<and>
   remote_rows (data (state (remote_run example_host
      [Mount, Render, Settled (Resolved (Response (Rejected SyntaxError))), Render]))) = Some []"
  using remote_empty_and_error [of example_host SyntaxError]
  by (simp add: Let_def remote_rows_def)

subsection \<open>The body text of a row\<close>

text \<open>
  As claim C5 states it, the body text is \<^verbatim>\<open>item.summary\<close> whenever the item has a
  summary. The renderer tests the summary's truthiness, not its presence: an item whose
  summary is the empty string shows its content instead.
\<close>

theorem remote_body_text_counterexample:
  "get_prop (J (JObj [(''title'', JStr ''T''), (''summary'', JStr ''''), (''content'', JStr ''C'')]))
     ''summary'' = Inr (J (JStr '''')) \<and>
   remote_renderItem
     (J (JObj [(''title'', JStr ''T''), (''summary'', JStr ''''), (''content'', JStr ''C'')])) 0
     = Inr \<lparr>card_image = ReactLogo, card_title = J (JStr ''T''), card_body = J (JStr ''C'')\<rparr> \<and>
   J (JStr ''C'') \<noteq> J (JStr '''')"
  by (simp add: remote_renderItem_def)

text \<open>
  Claim C5, as amended. For every article object the row shows \<^verbatim>\<open>item.title\<close>, and its
  body text is \<^verbatim>\<open>item.summary\<close> when the summary is present and truthy (for a string:
  not empty); otherwise, when the summary is absent or falsy, it is \<^verbatim>\<open>item.content\<close>,
  which is \<open>Undefined\<close> (nothing shown) when the item has no \<^verbatim>\<open>content\<close> key.
\<close>

theorem remote_body_text:
  "remote_renderItem (J (JObj kvs)) index =
     Inr \<lparr>card_image = ReactLogo,
          card_title = (case map_of kvs ''title'' of None \<Rightarrow> Undefined | Some t \<Rightarrow> J t),
          card_body =
            (case map_of kvs ''summary'' of
               None \<Rightarrow> (case map_of kvs ''content'' of None \<Rightarrow> Undefined | Some c \<Rightarrow> J c)
             | Some s \<Rightarrow>
                 if truthy (J s) then J s
                 else (case map_of kvs ''content'' of None \<Rightarrow> Undefined | Some c \<Rightarrow> J c))\<rparr>"
  by (simp add: remote_renderItem_def split: option.splits)

theorem remote_body_text_witness:
  "remote_renderItem (J (JObj [(''title'', JStr ''T''), (''summary'', JStr ''S''), (''content'', JStr ''C'')])) 0
     = Inr \<lparr>card_image = ReactLogo, card_title = J (JStr ''T''), card_body = J (JStr ''S'')\<rparr> \<and>
   remote_renderItem (J (JObj [(''title'', JStr ''T''), (''content'', JStr ''C'')])) 1
     = Inr \<lparr>card_image = ReactLogo, card_title = J (JStr ''T''), card_body = J (JStr ''C'')\<rparr> \<and>
   remote_renderItem (J (JObj [(''title'', JStr ''T'')])) 2
     = Inr \<lparr>card_image = ReactLogo, card_title = J (JStr ''T''), card_body = Undefined\<rparr>"
  using remote_body_text [of "[(''title'', JStr ''T''), (''summary'', JStr ''S''), (''content'', JStr ''C'')]" 0]
    remote_body_text [of "[(''title'', JStr ''T''), (''content'', JStr ''C'')]" 1]
    remote_body_text [of "[(''title'', JStr ''T'')]" 2]
  by simp

section \<open>Properties of both screens\<close>

subsection \<open>The guard\<close>




subsection \<open>hasMore is only ever cleared\<close>

lemma mock_actions_no_SetHasMore_True: "SetHasMore True \<notin> set (mock_actions e m)"
proof (cases e)
  case (Settled u)
  then show ?thesis
    by (cases "pending m") (simp_all add: mock_resume_sets)
qed (simp_all add: mock_fetchData_start_def)

lemma remote_actions_no_SetHasMore_True:
  "SetHasMore True \<notin> set (remote_actions h e r)"
  by (cases e) (simp_all add: remote_resume_sets remote_fetchData_start_def)

lemma mock_apply_hasMore:
  "SetHasMore True \<notin> set as \<Longrightarrow> \<not> hasMore s \<Longrightarrow> \<not> hasMore (foldl mock_apply s as)"
proof (induction as arbitrary: s)
  case (Cons a as)
  then have "\<not> hasMore (mock_apply s a)"
    by (cases "(s, a)" rule: mock_apply.cases) auto
  with Cons show ?case by simp
qed simp

lemma remote_apply_hasMore:
  "SetHasMore True \<notin> set as \<Longrightarrow> \<not> hasMore s \<Longrightarrow> \<not> hasMore (foldl remote_apply s as)"
proof (induction as arbitrary: s)
  case (Cons a as)
  then have "\<not> hasMore (remote_apply s a)"
    by (cases "(s, a)" rule: remote_apply.cases) auto
  with Cons show ?case by simp
qed simp

lemma mock_hasMore_step:
  assumes "\<not> hasMore (state m)"
  shows "\<not> hasMore (state (mock_step m e))"
  using assms mock_actions_no_SetHasMore_True [of e m]
  by (simp add: mock_step_def mock_apply_hasMore)

lemma remote_hasMore_step:
  assumes "\<not> hasMore (state r)"
  shows "\<not> hasMore (state (remote_step h r e))"
  using assms remote_actions_no_SetHasMore_True [of h e r]
  by (simp add: remote_step_def remote_apply_hasMore)

lemma mock_hasMore_stays_off:
  "\<not> hasMore (state m) \<Longrightarrow> \<not> hasMore (state (foldl mock_step m events))"
  by (induction events arbitrary: m) (simp_all add: mock_hasMore_step)

lemma remote_hasMore_stays_off:
  "\<not> hasMore (state r) \<Longrightarrow> \<not> hasMore (state (foldl (remote_step h) r events))"
  by (induction events arbitrary: r) (simp_all add: remote_hasMore_step)

lemma mock_seen_stays_off:
  "\<not> hasMore (state m) \<Longrightarrow> \<not> hasMore (rendered m) \<Longrightarrow>
   \<not> hasMore (rendered (foldl mock_step m events))"
proof (induction events arbitrary: m)
  case (Cons e events)
  have "\<not> hasMore (rendered (mock_step m e))"
    using Cons.prems by (simp add: mock_step_def)
  with Cons.IH [OF mock_hasMore_step [OF Cons.prems(1)]] show ?case
    by simp
qed simp

lemma remote_seen_stays_off:
  "\<not> hasMore (state r) \<Longrightarrow> \<not> hasMore (rendered r) \<Longrightarrow>
   \<not> hasMore (rendered (foldl (remote_step h) r events))"
proof (induction events arbitrary: r)
  case (Cons e events)
  have "\<not> hasMore (rendered (remote_step h r e))"
    using Cons.prems by (simp add: remote_step_def)
  with Cons.IH [OF remote_hasMore_step [OF Cons.prems(1)]] show ?case
    by simp
qed simp

lemma mock_no_launch:
  assumes "\<not> hasMore (rendered m)"
  shows "launched (mock_actions e m) = []"
proof (cases e)
  case (Settled u)
  then show ?thesis
    by (cases "pending m") (simp_all add: mock_resume_sets)
qed (use assms in \<open>simp_all add: mock_fetchData_start_def\<close>)

lemma remote_no_request:
  assumes "\<not> hasMore (rendered r)"
  shows "requests (remote_actions h e r) = []"
  using assms by (cases e) (simp_all add: remote_resume_sets remote_fetchData_start_def)

text \<open>
  As claim C6 states it, on the remote screen fetching never resumes once any response
  has been received. A response whose body fails to parse, or parses to \<^verbatim>\<open>null\<close>, has
  been received (\<^verbatim>\<open>await fetch\<close> returned it), yet the error is only logged: \<open>hasMore\<close>
  stays true and the next end-of-list trigger issues another request.
\<close>

theorem hasMore_response_counterexample:
  "hasMore (state (remote_run example_host
      [Mount, Render, Settled (Resolved (Response (Rejected SyntaxError))), Render])) = True \<and>
   requests (remote_actions example_host EndReached
      (remote_run example_host
        [Mount, Render, Settled (Resolved (Response (Rejected SyntaxError))), Render]))
     = [BACKEND_URL @ ''/top-news''] \<and>
   hasMore (state (remote_run example_host
      [Mount, Render, Settled (Resolved (Response (Resolved JNull))), Render])) = True \<and>
   requests (remote_actions example_host EndReached
      (remote_run example_host
        [Mount, Render, Settled (Resolved (Response (Resolved JNull))), Render]))
     = [BACKEND_URL @ ''/top-news'']"
  by (simp add: remote_eval)

text \<open>
  Claim C6, as amended. On both screens every call of \<^verbatim>\<open>setHasMore\<close> writes false, so
  once \<open>hasMore\<close> is false it stays false along every sequence of events, and once a
  render has seen it false no event launches a fetch again. On a mounted screen it
  becomes false when a fetch of the mock screen returns no items, and when the remote
  screen's \<^verbatim>\<open>try\<close> block runs to its end without an exception, as it does for every body
  that parses to an object whose \<^verbatim>\<open>articles\<close> entry is absent or is an array of rows
  that cannot throw while they render (the empty array among them). When the \<^verbatim>\<open>try\<close>
  block throws, \<^verbatim>\<open>setHasMore\<close> is not called and \<open>hasMore\<close> keeps its value.
\<close>

theorem hasMore_only_cleared:
  "SetHasMore True \<notin> set (mock_actions e m) \<and>
   SetHasMore True \<notin> set (remote_actions h e' r) \<and>
   (\<not> hasMore (state m) \<longrightarrow> \<not> hasMore (state (foldl mock_step m events))) \<and>
   (\<not> hasMore (state r) \<longrightarrow> \<not> hasMore (state (foldl (remote_step h) r events'))) \<and>
   (\<not> hasMore (state m) \<and> \<not> hasMore (rendered m) \<longrightarrow>
      launched (mock_actions e (foldl mock_step m events)) = []) \<and>
   (\<not> hasMore (state r) \<and> \<not> hasMore (rendered r) \<longrightarrow>
      requests (remote_actions h e' (foldl (remote_step h) r events')) = []) \<and>
   (\<not> unmounted m \<and> pending m = p # ps \<and> simulateFetch p = Resolved [] \<longrightarrow>
      \<not> hasMore (state (mock_step m TimerFired))) \<and>
   (\<not> unmounted r \<and> 0 < pending r \<and> snd (remote_try h fetched) = None \<longrightarrow>
      \<not> hasMore (state (remote_step h r (Settled fetched)))) \<and>
   (snd (remote_try h fetched) = Some error \<longrightarrow>
      SetHasMore False \<notin> set (remote_actions h (Settled fetched) r) \<and>
      hasMore (state (remote_step h r (Settled fetched))) = hasMore (state r)) \<and>
   (map_of kvs ''articles'' = None \<or>
    map_of kvs ''articles'' = Some (JArr xs) \<and> rows_safe (J (JArr xs)) \<longrightarrow>
      snd (remote_try h (Resolved (Response (Resolved (JObj kvs))))) = None)"
proof -
  have mock_end: "\<not> hasMore (state (mock_step m TimerFired))"
    if "\<not> unmounted m" and "pending m = p # ps" and "simulateFetch p = Resolved []"
    using that by (simp add: mock_step_def)
  have remote_end: "\<not> hasMore (state (remote_step h r (Settled fetched)))"
    if mounted: "\<not> unmounted r" and pos: "0 < pending r"
      and completed: "snd (remote_try h fetched) = None"
    using mounted pos remote_try_completed [OF completed] by (simp add: remote_step_def)
  have thrown: "SetHasMore False \<notin> set (remote_actions h (Settled fetched) r) \<and>
      hasMore (state (remote_step h r (Settled fetched))) = hasMore (state r)"
    if "snd (remote_try h fetched) = Some error"
    using remote_try_thrown [OF that] by (simp add: remote_step_def)
  have completes: "snd (remote_try h (Resolved (Response (Resolved (JObj kvs))))) = None"
    if "map_of kvs ''articles'' = None \<or>
        map_of kvs ''articles'' = Some (JArr xs) \<and> rows_safe (J (JArr xs))"
    using that remote_try_absent [of kvs h] remote_try_safe_rows [of kvs xs h]
    by auto
  have mock_quiet: "launched (mock_actions e (foldl mock_step m events)) = []"
    if "\<not> hasMore (state m)" and "\<not> hasMore (rendered m)"
    using that by (simp add: mock_no_launch mock_seen_stays_off)
  have remote_quiet: "requests (remote_actions h e' (foldl (remote_step h) r events')) = []"
    if "\<not> hasMore (state r)" and "\<not> hasMore (rendered r)"
    using that by (simp add: remote_no_request remote_seen_stays_off)
  show ?thesis
    using mock_actions_no_SetHasMore_True remote_actions_no_SetHasMore_True
      mock_hasMore_stays_off remote_hasMore_stays_off mock_quiet remote_quiet
      mock_end remote_end thrown completes
    by blast
qed

theorem hasMore_only_cleared_witness:
  "simulateFetch 11 = Resolved [] \<and>
   \<not> hasMore (state (mock_step
       \<lparr>state = \<lparr>data = MOCK_DATA, loading = True, hasMore = True, page = 11\<rparr>,
        rendered = \<lparr>data = MOCK_DATA, loading = True, hasMore = True, page = 11\<rparr>,
        pending = [11], unmounted = False\<rparr> TimerFired)) \<and>
   snd (remote_try example_host (Resolved (Response (Resolved (JObj []))))) = None \<and>
   \<not> hasMore (state (remote_step example_host (remote_run example_host [Mount, Render])
       (Settled (Resolved (Response (Resolved (JObj []))))))) \<and>
   snd (remote_try example_host (Rejected NetworkError)) = Some NetworkError \<and>
   hasMore (state (remote_step example_host (remote_run example_host [Mount, Render])
       (Settled (Rejected NetworkError)))) \<and>
   \<not> hasMore (state (foldl (remote_step example_host)
       (remote_run example_host
          [Mount, Render, Settled (Resolved (Response (Resolved (JObj [])))), Render])
       [EndReached, Settled (Rejected NetworkError), EndReached])) \<and>
   requests (remote_actions example_host EndReached (foldl (remote_step example_host)
       (remote_run example_host
          [Mount, Render, Settled (Resolved (Response (Resolved (JObj [])))), Render])
       [EndReached, Settled (Rejected NetworkError), EndReached])) = []"
proof -
  let ?m = "\<lparr>state = \<lparr>data = MOCK_DATA, loading = True, hasMore = True, page = 11\<rparr>,
        rendered = \<lparr>data = MOCK_DATA, loading = True, hasMore = True, page = 11\<rparr>,
        pending = [11], unmounted = False\<rparr>"
  let ?r = "remote_run example_host [Mount, Render]"
  let ?body = "Resolved (Response (Resolved (JObj [])))"
  let ?stopped = "remote_run example_host [Mount, Render, Settled ?body, Render]"
  let ?later = "[EndReached, Settled (Rejected NetworkError), EndReached]"
  have empty: "simulateFetch 11 = Resolved []"
    by (simp add: simulateFetch_page length_MOCK_DATA)
  have r: "\<not> unmounted ?r" "0 < pending ?r" "hasMore (state ?r)"
    by (simp_all add: remote_eval)
  have off: "\<not> hasMore (state ?stopped)" "\<not> hasMore (rendered ?stopped)"
    by (simp_all add: remote_eval)
  have failed: "snd (remote_try example_host (Rejected NetworkError)) = Some NetworkError"
    by (simp add: remote_try_def)
  have "\<not> hasMore (state (mock_step ?m TimerFired))"
    using hasMore_only_cleared [where m = ?m and p = 11 and ps = "[]"] empty by simp
  moreover have completed: "snd (remote_try example_host ?body) = None"
    using hasMore_only_cleared [where h = example_host and kvs = "[]"] by simp
  moreover have "\<not> hasMore (state (remote_step example_host ?r (Settled ?body)))"
    using hasMore_only_cleared [where h = example_host and r = ?r and fetched = ?body]
      r completed by blast
  moreover have "hasMore (state (remote_step example_host ?r (Settled (Rejected NetworkError))))"
    using hasMore_only_cleared [where h = example_host and r = ?r
        and fetched = "Rejected NetworkError" and error = NetworkError]
      r failed by blast
  moreover have "\<not> hasMore (state (foldl (remote_step example_host) ?stopped ?later))"
    using hasMore_only_cleared [where h = example_host and r = ?stopped and events' = ?later]
      off by blast
  moreover have "requests (remote_actions example_host EndReached
      (foldl (remote_step example_host) ?stopped ?later)) = []"
    using hasMore_only_cleared [where h = example_host and r = ?stopped and events' = ?later
        and e' = EndReached]
      off by blast
  ultimately show ?thesis
    using empty failed by blast
qed

subsection \<open>Unmounting while a fetch is outstanding\<close>

text \<open>
  As claim C10 states it, the completion of a fetch after the unmount calls no setter.
  Neither screen has a cleanup, a mounted flag or a cancellation: on a screen unmounted
  with its first fetch outstanding, the continuation of \<open>fetchData\<close> runs when the fetch
  settles and calls \<^verbatim>\<open>setData\<close>, \<^verbatim>\<open>setPage\<close> and \<^verbatim>\<open>setLoading\<close> (mock), or logs the
  error and calls \<^verbatim>\<open>setLoading\<close> (remote).
\<close>

theorem unmount_guard_counterexample:
  "unmounted (mock_run [Mount, Render, Unmount]) \<and>
   pending (mock_run [Mount, Render, Unmount]) = [1] \<and>
   mock_actions TimerFired (mock_run [Mount, Render, Unmount])
     = [AppendData (take 5 MOCK_DATA), IncrementPage, SetLoading False] \<and>
   unmounted (remote_run example_host [Mount, Render, Unmount]) \<and>
   pending (remote_run example_host [Mount, Render, Unmount]) = 1 \<and>
   remote_actions example_host (Settled (Rejected NetworkError))
       (remote_run example_host [Mount, Render, Unmount])
     = [ConsoleError ''Error fetching news:'' NetworkError,
        ConsoleLog ''Fetch complete, setting loading to false'', SetLoading False]"
proof -
  have "mock_run [Mount, Render, Unmount] =
      \<lparr>state = \<lparr>data = [], loading = True, hasMore = True, page = 1\<rparr>,
       rendered = \<lparr>data = [], loading = True, hasMore = True, page = 1\<rparr>,
       pending = [1], unmounted = True\<rparr>"
    by (simp add: mock_run_def mock_screen_def mock_initial_def mock_step_def
        mock_fetchData_start_def)
  moreover have "remote_run example_host [Mount, Render, Unmount] =
      \<lparr>state = \<lparr>data = J (JArr []), loading = True, hasMore = True\<rparr>,
       rendered = \<lparr>data = J (JArr []), loading = True, hasMore = True\<rparr>,
       pending = 1, unmounted = True\<rparr>"
    by (simp add: remote_eval)
  ultimately show ?thesis
    by (simp add: simulateFetch_page length_MOCK_DATA remote_fetchData_resume_def
        remote_try_def)
qed

text \<open>
  Claim C10, as amended. Unmounting either screen does nothing by itself: it issues no
  action, cancels no outstanding fetch and leaves the state as it is. When the
  outstanding fetch settles afterwards, the continuation of \<open>fetchData\<close> runs exactly
  as on a mounted screen, to its end (an error of the fetch is caught there), and calls
  the setters, \<^verbatim>\<open>setLoading(false)\<close> last. The calls reach an unmounted component, where
  React ignores them: after the unmount no event changes a field of the state.
\<close>

theorem unmount_does_not_cancel:
  "mock_actions Unmount m = [] \<and>
   state (mock_step m Unmount) = state m \<and>
   pending (mock_step m Unmount) = pending m \<and>
   mock_actions TimerFired (m\<lparr>unmounted := True\<rparr>)
     = mock_actions TimerFired (m\<lparr>unmounted := False\<rparr>) \<and>
   (if pending m = [] then mock_actions TimerFired m = []
    else last (mock_actions TimerFired m) = SetLoading False) \<and>
   (if unmounted m then state (mock_step m e) = state m
    else state (mock_step m e) = foldl mock_apply (state m) (mock_actions e m)) \<and>
   remote_actions h Unmount r = [] \<and>
   state (remote_step h r Unmount) = state r \<and>
   pending (remote_step h r Unmount) = pending r \<and>
   remote_actions h (Settled fetched) (r\<lparr>unmounted := True\<rparr>)
     = remote_actions h (Settled fetched) (r\<lparr>unmounted := False\<rparr>) \<and>
   (if pending r = 0 then remote_actions h (Settled fetched) r = []
    else last (remote_actions h (Settled fetched) r) = SetLoading False) \<and>
   (if unmounted r then state (remote_step h r e') = state r
    else state (remote_step h r e') = foldl remote_apply (state r) (remote_actions h e' r))"
proof -
  have mock: "last (mock_actions TimerFired m) = SetLoading False" if "pending m \<noteq> []"
  proof -
    from that obtain p ps where p: "pending m = p # ps"
      by (cases "pending m") auto
    show ?thesis
      by (simp add: p simulateFetch_resolved)
  qed
  have remote: "last (remote_actions h (Settled fetched) r) = SetLoading False"
    if "pending r \<noteq> 0"
    using that by (simp add: remote_resume_sets)
  show ?thesis
    using mock remote by (simp add: mock_step_def remote_step_def)
qed

theorem unmount_does_not_cancel_witness:
  "unmounted (mock_run [Mount, Render, Unmount]) \<and>
   pending (mock_run [Mount, Render, Unmount]) \<noteq> [] \<and>
   last (mock_actions TimerFired (mock_run [Mount, Render, Unmount])) = SetLoading False \<and>
   state (mock_step (mock_run [Mount, Render, Unmount]) TimerFired)
     = state (mock_run [Mount, Render, Unmount]) \<and>
   loading (state (mock_step (mock_run [Mount, Render, Unmount]) TimerFired)) \<and>
   unmounted (remote_run example_host [Mount, Render, Unmount]) \<and>
   pending (remote_run example_host [Mount, Render, Unmount]) \<noteq> 0 \<and>
   last (remote_actions example_host (Settled (Rejected NetworkError))
          (remote_run example_host [Mount, Render, Unmount])) = SetLoading False \<and>
   state (remote_step example_host (remote_run example_host [Mount, Render, Unmount])
          (Settled (Rejected NetworkError)))
     = state (remote_run example_host [Mount, Render, Unmount])"
proof -
  let ?m = "mock_run [Mount, Render, Unmount]"
  let ?r = "remote_run example_host [Mount, Render, Unmount]"
  have m: "unmounted ?m" "pending ?m \<noteq> []" "loading (state ?m)"
    by (simp_all add: mock_run_def mock_screen_def mock_initial_def mock_step_def
        mock_fetchData_start_def)
  have r: "unmounted ?r" "pending ?r \<noteq> 0"
    by (simp_all add: remote_eval)
  show ?thesis
    using m r
      unmount_does_not_cancel [where m = ?m and h = example_host and r = ?r
        and fetched = "Rejected NetworkError" and e = TimerFired
        and e' = "Settled (Rejected NetworkError)"]
    by simp
qed

end
